theory Spec2Isabelle
  imports Main "HOL-Library.Word"
begin

section \<open>Data model of \<open>reorder-queue.h\<close>\<close>

text \<open>
  Modelled from the spec: the item type (\<open>Packet\<close>, \<open>QueueDiscItem\<close>), declared outside
  this file. Section 3: an "opaque transported unit; exposes a byte size". \<open>GetSize\<close> is a
  \<open>uint32_t\<close>; \<open>GetUid\<close> is the identity, which only the log statements read.
\<close>

record Item =
  GetUid :: nat
  GetSize :: "32 word"

text \<open>
  Modelled from the spec: \<open>QueueSize\<close> and \<open>QueueSizeUnit\<close> of \<open>queue-size.h\<close>. Section 3:
  "either an element-count bound or a byte bound (mutually exclusive unit)". The queue
  reads the unit and the value (a \<open>uint32_t\<close>) only.
\<close>

datatype QueueSizeUnit = PACKETS | BYTES

record QueueSize =
  GetUnit :: QueueSizeUnit
  GetValue :: "32 word"

text \<open>
  The private members of \<open>ReorderQueue<Item>\<close>. \<open>m_packets\<close> is the \<open>std::queue\<close>,
  front first. The null \<open>Ptr\<close> is \<open>None\<close>. \<open>m_dropped\<close> records, in call order, the items
  handed to \<open>DropBeforeEnqueue\<close> (the drop trace of the base class).
\<close>

record ReorderQueue =
  m_maxSize :: QueueSize
  m_packets :: "Item list"
  m_bytesInQueue :: "32 word"
  m_reorderDepth :: "32 word"
  m_inSequenceLength :: "32 word"
  m_holdCount :: "32 word"
  m_inSequenceCount :: "32 word"
  m_held :: "Item option"
  m_dropped :: "Item list"

text \<open>
  The constructor clears the store, the byte counter, both counters and the held slot;
  the attribute system sets \<open>MaxLength\<close>, \<open>ReorderDepth\<close> and \<open>InSequenceLength\<close>
  (any \<open>uint32_t\<close> passes \<open>MakeUintegerChecker<uint32_t> ()\<close>).
\<close>

definition ReorderQueue_new :: "QueueSize \<Rightarrow> 32 word \<Rightarrow> 32 word \<Rightarrow> ReorderQueue" where
  "ReorderQueue_new maxSize reorderDepth inSequenceLength =
     \<lparr>m_maxSize = maxSize, m_packets = [], m_bytesInQueue = 0,
      m_reorderDepth = reorderDepth, m_inSequenceLength = inSequenceLength,
      m_holdCount = 0, m_inSequenceCount = 0, m_held = None, m_dropped = []\<rparr>"

text \<open>The attribute defaults of \<open>GetTypeId\<close>: \<open>"100p"\<close>, 5 and 3.\<close>

definition default_queue :: ReorderQueue where
  "default_queue = ReorderQueue_new \<lparr>GetUnit = PACKETS, GetValue = 100\<rparr> 5 3"

definition packet :: "nat \<Rightarrow> 32 word \<Rightarrow> Item" where
  "packet uid bytes = \<lparr>GetUid = uid, GetSize = bytes\<rparr>"

section \<open>Operations\<close>

text \<open>
  Modelled from the spec: \<open>Queue<Item>::DropBeforeEnqueue\<close> of the base class
  (\<open>queue.h\<close>). Section 4.1: "the item is reported as dropped (a side-effecting
  notification to the drop-trace collaborator) and not retained anywhere". The private
  members of \<open>ReorderQueue\<close> are out of its reach.
\<close>

definition DropBeforeEnqueue :: "Item \<Rightarrow> ReorderQueue \<Rightarrow> ReorderQueue" where
  "DropBeforeEnqueue item q = q\<lparr>m_dropped := m_dropped q @ [item]\<rparr>"

text \<open>
  \<open>Enqueue\<close>, lines 124-151. \<open>m_packets.size ()\<close> is a \<open>size_t\<close> compared with a
  \<open>uint32_t\<close>, so that comparison is on natural numbers; the byte test adds two
  \<open>uint32_t\<close> and wraps.
\<close>

definition Enqueue :: "Item \<Rightarrow> ReorderQueue \<Rightarrow> bool \<times> ReorderQueue" where
  "Enqueue item q =
     (if GetUnit (m_maxSize q) = PACKETS
         \<and> length (m_packets q) \<ge> unat (GetValue (m_maxSize q))
      then (False, DropBeforeEnqueue item q)
      else if GetUnit (m_maxSize q) = BYTES
         \<and> m_bytesInQueue q + GetSize item \<ge> GetValue (m_maxSize q)
      then (False, DropBeforeEnqueue item q)
      else (True, q\<lparr>m_bytesInQueue := m_bytesInQueue q + GetSize item,
                     m_packets := m_packets q @ [item]\<rparr>))"

text \<open>Lines 168-173: the held item leaves the queue.\<close>

definition ReleaseHeld :: "ReorderQueue \<Rightarrow> Item option \<times> ReorderQueue" where
  "ReleaseHeld q =
     (m_held q,
      q\<lparr>m_held := None,
        m_bytesInQueue := m_bytesInQueue q - GetSize (the (m_held q)),
        m_inSequenceCount := 0,
        m_holdCount := 0\<rparr>)"

text \<open>Lines 180-184: the front of the store moves into the held slot.\<close>

definition HoldFront :: "ReorderQueue \<Rightarrow> ReorderQueue" where
  "HoldFront q =
     q\<lparr>m_held := Some (hd (m_packets q)),
       m_packets := tl (m_packets q),
       m_inSequenceCount := 0,
       m_holdCount := 0\<rparr>"

text \<open>Lines 189-192: the item just held is given back at once.\<close>

definition ReleaseAnyway :: "ReorderQueue \<Rightarrow> Item option \<times> ReorderQueue" where
  "ReleaseAnyway q =
     (m_held q,
      q\<lparr>m_held := None,
        m_bytesInQueue := m_bytesInQueue q - GetSize (the (m_held q))\<rparr>)"

text \<open>Lines 195-206: the front of the store is returned and one counter advances.\<close>

definition PopFront :: "ReorderQueue \<Rightarrow> Item option \<times> ReorderQueue" where
  "PopFront q =
     (let p = hd (m_packets q);
          q1 = q\<lparr>m_packets := tl (m_packets q),
                 m_bytesInQueue := m_bytesInQueue q - GetSize p\<rparr>
      in (Some p,
          if m_held q1 \<noteq> None
          then q1\<lparr>m_holdCount := m_holdCount q1 + 1\<rparr>
          else q1\<lparr>m_inSequenceCount := m_inSequenceCount q1 + 1\<rparr>))"

text \<open>
  \<open>Dequeue\<close>, lines 153-213. \<open>front ()\<close> is read only where the store is not empty:
  after the test of line 159, and after the test of line 185.
\<close>

definition Dequeue :: "ReorderQueue \<Rightarrow> Item option \<times> ReorderQueue" where
  "Dequeue q =
     (if m_packets q = [] then (None, q)
      else if m_holdCount q = m_reorderDepth q \<and> m_held q \<noteq> None then ReleaseHeld q
      else if m_inSequenceCount q = m_inSequenceLength q then
        (let q1 = HoldFront q
         in if m_packets q1 = [] then ReleaseAnyway q1 else PopFront q1)
      else PopFront q)"

text \<open>
  Modelled from the spec: \<open>Queue<Item>::DoRemove\<close> of the base class (\<open>queue.h\<close>), on the
  container whose first position it is given. Section 4.3 has it evict and return the
  head; an empty container gives nothing.
\<close>

definition DoRemove :: "Item list \<Rightarrow> Item option \<times> Item list" where
  "DoRemove container =
     (case container of
        [] \<Rightarrow> (None, [])
      | item # rest \<Rightarrow> (Some item, rest))"

text \<open>
  \<open>GetContainer ()\<close> is the container of the base class \<open>Queue<Item>\<close>, not the store: the
  store is the private \<open>std::queue\<close> \<open>m_packets\<close> of line 65, which \<open>Enqueue\<close> fills at
  line 145 without calling \<open>DoEnqueue\<close>. No member function of this class puts an item
  into the base container, so it is empty in every state of the queue.
\<close>

definition GetContainer :: "ReorderQueue \<Rightarrow> Item list" where
  "GetContainer q = []"

text \<open>
  \<open>Remove\<close>, lines 215-226: the result of \<open>DoRemove\<close> on the base container, and no
  other statement. Base-class code cannot reach the private members, so the store, the
  byte counter, the held slot and both counters are as before.
\<close>

definition Remove :: "ReorderQueue \<Rightarrow> Item option \<times> ReorderQueue" where
  "Remove q = (fst (DoRemove (GetContainer q)), q)"

section \<open>Runs\<close>

datatype op = Enq Item | Deq | Rem

datatype outcome = Accepted bool | Returned "Item option"

fun step :: "op \<Rightarrow> ReorderQueue \<Rightarrow> outcome \<times> ReorderQueue" where
  "step (Enq item) q = (Accepted (fst (Enqueue item q)), snd (Enqueue item q))"
| "step Deq q = (Returned (fst (Dequeue q)), snd (Dequeue q))"
| "step Rem q = (Returned (fst (Remove q)), snd (Remove q))"

text \<open>The state after a run of operations, and what each call returned.\<close>

fun exec :: "op list \<Rightarrow> ReorderQueue \<Rightarrow> ReorderQueue" where
  "exec [] q = q"
| "exec (c # cs) q = exec cs (snd (step c q))"

fun outcomes :: "op list \<Rightarrow> ReorderQueue \<Rightarrow> outcome list" where
  "outcomes [] q = []"
| "outcomes (c # cs) q = fst (step c q) # outcomes cs (snd (step c q))"


text \<open>
  The bytes the queue holds: the sizes of the items in the store and of the held item,
  added as natural numbers.
\<close>

definition stored_bytes :: "ReorderQueue \<Rightarrow> nat" where
  "stored_bytes q =
     sum_list (map (\<lambda>i. unat (GetSize i)) (m_packets q))
     + (case m_held q of None \<Rightarrow> 0 | Some h \<Rightarrow> unat (GetSize h))"

text \<open>A consumer that only takes items out: each call is a \<open>Dequeue\<close> or a \<open>Remove\<close>.\<close>

fun drain_op :: "bool \<Rightarrow> op" where
  "drain_op True = Deq"
| "drain_op False = Rem"

section \<open>The branches of \<open>Dequeue\<close>\<close>

text \<open>
  Which path a \<open>Dequeue\<close> call takes, by the tests of lines 159, 166, 178 and 185:
  nothing to return; the held item is released; the front is held and released in the same
  call; the front is held and the next item returned; the front is returned with no new hold.
\<close>

datatype branch = QueueEmpty | Released | HoldReleased | HoldPopped | Popped

definition DequeueBranch :: "ReorderQueue \<Rightarrow> branch" where
  "DequeueBranch q =
     (if m_packets q = [] then QueueEmpty
      else if m_holdCount q = m_reorderDepth q \<and> m_held q \<noteq> None then Released
      else if m_inSequenceCount q = m_inSequenceLength q then
        (if m_packets (HoldFront q) = [] then HoldReleased else HoldPopped)
      else Popped)"










text \<open>With the held slot empty, \<open>m_holdCount\<close> is zero.\<close>

definition no_hold_no_count :: "ReorderQueue \<Rightarrow> bool" where
  "no_hold_no_count q \<longleftrightarrow> (m_held q = None \<longrightarrow> m_holdCount q = 0)"

text \<open>
  The byte counter is the sum of the sizes held, as a \<open>uint32_t\<close>; an item is held only
  with \<open>m_inSequenceCount = 0\<close>; the in-sequence length is not zero.
\<close>

definition counted :: "ReorderQueue \<Rightarrow> bool" where
  "counted q \<longleftrightarrow>
     m_bytesInQueue q = of_nat (stored_bytes q)
     \<and> (m_held q \<noteq> None \<longrightarrow> m_inSequenceCount q = 0)
     \<and> m_inSequenceLength q \<noteq> 0"

section \<open>Single calls\<close>

lemmas queue_defs =
  Enqueue_def DropBeforeEnqueue_def Dequeue_def ReleaseHeld_def HoldFront_def
  ReleaseAnyway_def PopFront_def Remove_def DoRemove_def GetContainer_def Let_def

lemmas start_defs = default_queue_def ReorderQueue_new_def packet_def

text \<open>What \<open>Dequeue\<close> does on each of its branches.\<close>

lemma Dequeue_by_branch:
  "Dequeue q =
     (case DequeueBranch q of
        QueueEmpty \<Rightarrow> (None, q)
      | Released \<Rightarrow> ReleaseHeld q
      | HoldReleased \<Rightarrow> ReleaseAnyway (HoldFront q)
      | HoldPopped \<Rightarrow> PopFront (HoldFront q)
      | Popped \<Rightarrow> PopFront q)"
  by (auto simp add: Dequeue_def DequeueBranch_def Let_def)

lemma Dequeue_empty: "m_packets q = [] \<Longrightarrow> Dequeue q = (None, q)"
  by (simp add: Dequeue_def)

lemma Remove_nothing: "Remove q = (None, q)"
  by (simp add: Remove_def DoRemove_def GetContainer_def)

text \<open>
  C8. When the hold trigger fires on a store of one item, that item is returned by the
  same call, the held slot is empty afterwards and the byte counter has gone down by the
  item's size.
\<close>

theorem Dequeue_hold_last_item:
  assumes "m_packets q = [x]"
    and "\<not> (m_holdCount q = m_reorderDepth q \<and> m_held q \<noteq> None)"
    and "m_inSequenceCount q = m_inSequenceLength q"
  shows "Dequeue q =
           (Some x,
            q\<lparr>m_held := None, m_packets := [],
              m_bytesInQueue := m_bytesInQueue q - GetSize x,
              m_inSequenceCount := 0, m_holdCount := 0\<rparr>)"
  using assms by (auto simp add: Dequeue_def HoldFront_def ReleaseAnyway_def)

theorem Dequeue_hold_last_item_witness:
  "Dequeue \<lparr>m_maxSize = \<lparr>GetUnit = PACKETS, GetValue = 100\<rparr>,
            m_packets = [packet 4 10], m_bytesInQueue = 10,
            m_reorderDepth = 5, m_inSequenceLength = 3,
            m_holdCount = 0, m_inSequenceCount = 3, m_held = None, m_dropped = []\<rparr>
   = (Some (packet 4 10),
      \<lparr>m_maxSize = \<lparr>GetUnit = PACKETS, GetValue = 100\<rparr>,
       m_packets = [], m_bytesInQueue = 0,
       m_reorderDepth = 5, m_inSequenceLength = 3,
       m_holdCount = 0, m_inSequenceCount = 0, m_held = None, m_dropped = []\<rparr>)"
  using Dequeue_hold_last_item
    [of "\<lparr>m_maxSize = \<lparr>GetUnit = PACKETS, GetValue = 100\<rparr>,
         m_packets = [packet 4 10], m_bytesInQueue = 10,
         m_reorderDepth = 5, m_inSequenceLength = 3,
         m_holdCount = 0, m_inSequenceCount = 3, m_held = None, m_dropped = []\<rparr>"
        "packet 4 10"]
  by (simp add: packet_def)

text \<open>
  C9. A rejecting \<open>Enqueue\<close> returns false, hands the item to \<open>DropBeforeEnqueue\<close> once,
  and changes nothing else: store, byte counter, held slot and both counters are as before.
\<close>

theorem Enqueue_rejection:
  assumes "\<not> fst (Enqueue item q)"
  shows "Enqueue item q = (False, q\<lparr>m_dropped := m_dropped q @ [item]\<rparr>)"
  using assms by (auto simp add: Enqueue_def DropBeforeEnqueue_def split: if_splits)

theorem Enqueue_rejection_witness:
  "\<not> fst (Enqueue (packet 3 10)
            \<lparr>m_maxSize = \<lparr>GetUnit = PACKETS, GetValue = 2\<rparr>,
             m_packets = [packet 1 10, packet 2 10], m_bytesInQueue = 20,
             m_reorderDepth = 5, m_inSequenceLength = 3,
             m_holdCount = 0, m_inSequenceCount = 0, m_held = None, m_dropped = []\<rparr>)
   \<and> Enqueue (packet 3 10)
            \<lparr>m_maxSize = \<lparr>GetUnit = PACKETS, GetValue = 2\<rparr>,
             m_packets = [packet 1 10, packet 2 10], m_bytesInQueue = 20,
             m_reorderDepth = 5, m_inSequenceLength = 3,
             m_holdCount = 0, m_inSequenceCount = 0, m_held = None, m_dropped = []\<rparr>
     = (False,
            \<lparr>m_maxSize = \<lparr>GetUnit = PACKETS, GetValue = 2\<rparr>,
             m_packets = [packet 1 10, packet 2 10], m_bytesInQueue = 20,
             m_reorderDepth = 5, m_inSequenceLength = 3,
             m_holdCount = 0, m_inSequenceCount = 0, m_held = None,
             m_dropped = [packet 3 10]\<rparr>)"
proof -
  let ?q = "\<lparr>m_maxSize = \<lparr>GetUnit = PACKETS, GetValue = 2\<rparr>,
             m_packets = [packet 1 10, packet 2 10], m_bytesInQueue = 20,
             m_reorderDepth = 5, m_inSequenceLength = 3,
             m_holdCount = 0, m_inSequenceCount = 0, m_held = None, m_dropped = []\<rparr>"
  have rejected: "\<not> fst (Enqueue (packet 3 10) ?q)"
    by (simp add: Enqueue_def)
  from Enqueue_rejection [OF rejected] rejected show ?thesis
    by simp
qed

text \<open>
  C7 on the code. One item of 10 bytes is accepted by the default queue and \<open>Remove\<close> is
  called: it returns nothing, and the item is still at the front of the store. The held
  slot, both counters and the byte counter are as before, as for every state.
\<close>

theorem Remove_leaves_store:
  "fst (Remove (exec [Enq (packet 1 10)] default_queue)) = None
   \<and> m_packets (exec [Enq (packet 1 10)] default_queue) = [packet 1 10]
   \<and> m_packets (snd (Remove (exec [Enq (packet 1 10)] default_queue))) = [packet 1 10]
   \<and> snd (Remove q) = q"
  by (simp add: queue_defs start_defs)

section \<open>Admission\<close>

text \<open>
  C5, as the code has it. In packet mode \<open>Enqueue\<close> accepts exactly when the store holds
  fewer items than the limit. In byte mode it accepts exactly when the byte counter plus
  the item's size, added as \<open>uint32_t\<close> (modulo \<open>2 ^ 32\<close>), is below the limit.
\<close>

theorem Enqueue_admission:
  "fst (Enqueue item q) \<longleftrightarrow>
     (case GetUnit (m_maxSize q) of
        PACKETS \<Rightarrow> length (m_packets q) < unat (GetValue (m_maxSize q))
      | BYTES \<Rightarrow> (unat (m_bytesInQueue q) + unat (GetSize item)) mod 2 ^ 32
                   < unat (GetValue (m_maxSize q)))"
  by (cases "GetUnit (m_maxSize q)")
     (auto simp add: Enqueue_def word_le_nat_alt word_less_nat_alt unat_word_ariths not_le)

text \<open>
  C5 as stated fails where the sum passes \<open>2 ^ 32\<close>: with a limit of 100 bytes and 50
  bytes queued, an item of 4294967256 bytes is accepted, the wrapped sum being 10.
\<close>

theorem Enqueue_admission_counterexample:
  "\<not> (fst (Enqueue (packet 2 4294967256)
             (exec [Enq (packet 1 50)]
                (ReorderQueue_new \<lparr>GetUnit = BYTES, GetValue = 100\<rparr> 5 3)))
        \<longleftrightarrow>
        unat (m_bytesInQueue
                (exec [Enq (packet 1 50)]
                   (ReorderQueue_new \<lparr>GetUnit = BYTES, GetValue = 100\<rparr> 5 3)))
          + unat (GetSize (packet 2 4294967256))
        < unat (GetValue (m_maxSize
                (exec [Enq (packet 1 50)]
                   (ReorderQueue_new \<lparr>GetUnit = BYTES, GetValue = 100\<rparr> 5 3)))))"
  by (simp add: queue_defs start_defs)

section \<open>The scenario of six items\<close>

text \<open>
  C1, as the code has it. On the default queue, six items enqueued in order are all
  accepted, and the first five \<open>Dequeue\<close> calls return the first, second, third, fifth and
  sixth of them: the hold trigger is reached after three in-order releases, so the fourth
  call sets the fourth item aside, and it is in the held slot from then on.
\<close>

theorem six_items_first_five_dequeues:
  "outcomes [Enq a, Enq b, Enq c, Enq d, Enq e, Enq f, Deq, Deq, Deq, Deq, Deq] default_queue
   = [Accepted True, Accepted True, Accepted True, Accepted True, Accepted True,
      Accepted True,
      Returned (Some a), Returned (Some b), Returned (Some c), Returned (Some e),
      Returned (Some f)]
   \<and> m_held (exec [Enq a, Enq b, Enq c, Enq d, Enq e, Enq f, Deq, Deq, Deq, Deq]
               default_queue) = Some d
   \<and> m_held (exec [Enq a, Enq b, Enq c, Enq d, Enq e, Enq f, Deq, Deq, Deq, Deq, Deq]
               default_queue) = Some d"
  by (simp add: queue_defs start_defs)

text \<open>
  C1 as stated fails: six \<open>Dequeue\<close> calls do not return the items in the order first,
  second, fourth, fifth, sixth, third.
\<close>

theorem six_items_counterexample:
  "outcomes [Deq, Deq, Deq, Deq, Deq, Deq]
     (exec [Enq (packet 1 10), Enq (packet 2 10), Enq (packet 3 10),
            Enq (packet 4 10), Enq (packet 5 10), Enq (packet 6 10)] default_queue)
   \<noteq> [Returned (Some (packet 1 10)), Returned (Some (packet 2 10)),
       Returned (Some (packet 4 10)), Returned (Some (packet 5 10)),
       Returned (Some (packet 6 10)), Returned (Some (packet 3 10))]"
  by (simp add: queue_defs start_defs)

section \<open>A held item when the store runs empty\<close>

lemma outcomes_empty_store:
  "m_packets q = [] \<Longrightarrow>
   outcomes (map drain_op bs) q = replicate (length bs) (Returned None)"
proof (induction bs)
  case Nil
  show ?case by simp
next
  case (Cons b bs)
  then show ?case by (cases b) (simp_all add: Dequeue_empty Remove_nothing)
qed

lemma exec_empty_store: "m_packets q = [] \<Longrightarrow> exec (map drain_op bs) q = q"
proof (induction bs)
  case Nil
  show ?case by simp
next
  case (Cons b bs)
  then show ?case by (cases b) (simp_all add: Dequeue_empty Remove_nothing)
qed

lemma five_items_four_dequeues:
  "exec [Enq a, Enq b, Enq c, Enq d, Enq e, Deq, Deq, Deq, Deq] default_queue
   = \<lparr>m_maxSize = \<lparr>GetUnit = PACKETS, GetValue = 100\<rparr>, m_packets = [],
      m_bytesInQueue = GetSize d, m_reorderDepth = 5, m_inSequenceLength = 3,
      m_holdCount = 1, m_inSequenceCount = 0, m_held = Some d, m_dropped = []\<rparr>"
  by (simp add: queue_defs start_defs)

text \<open>
  C2 on the code. Five items are accepted by the default queue; four \<open>Dequeue\<close> calls
  return the first, second, third and fifth. From then on every \<open>Dequeue\<close> and every
  \<open>Remove\<close>, however many are made, returns nothing, and the fourth item stays in the held
  slot: it is not returned.
\<close>

theorem held_item_not_returned:
  "outcomes [Enq a, Enq b, Enq c, Enq d, Enq e, Deq, Deq, Deq, Deq] default_queue
     = [Accepted True, Accepted True, Accepted True, Accepted True, Accepted True,
        Returned (Some a), Returned (Some b), Returned (Some c), Returned (Some e)]
   \<and> outcomes (map drain_op bs)
        (exec [Enq a, Enq b, Enq c, Enq d, Enq e, Deq, Deq, Deq, Deq] default_queue)
     = replicate (length bs) (Returned None)
   \<and> m_held (exec (map drain_op bs)
        (exec [Enq a, Enq b, Enq c, Enq d, Enq e, Deq, Deq, Deq, Deq] default_queue))
     = Some d"
proof -
  let ?q = "exec [Enq a, Enq b, Enq c, Enq d, Enq e, Deq, Deq, Deq, Deq] default_queue"
  have empty: "m_packets ?q = []"
    unfolding five_items_four_dequeues by simp
  have "outcomes [Enq a, Enq b, Enq c, Enq d, Enq e, Deq, Deq, Deq, Deq] default_queue
     = [Accepted True, Accepted True, Accepted True, Accepted True, Accepted True,
        Returned (Some a), Returned (Some b), Returned (Some c), Returned (Some e)]"
    by (simp add: queue_defs start_defs)
  moreover have "m_held ?q = Some d"
    unfolding five_items_four_dequeues by simp
  ultimately show ?thesis
    using outcomes_empty_store [OF empty] exec_empty_store [OF empty] by simp
qed

text \<open>
  C3 on the code. After the same five items and four \<open>Dequeue\<close> calls the store is empty
  and the held slot is not; the next \<open>Dequeue\<close> finds the store empty and returns nothing
  while the fourth item is held.
\<close>

theorem held_with_empty_store:
  "m_packets (exec [Enq (packet 1 10), Enq (packet 2 10), Enq (packet 3 10),
                    Enq (packet 4 10), Enq (packet 5 10), Deq, Deq, Deq, Deq]
                default_queue) = []
   \<and> m_held (exec [Enq (packet 1 10), Enq (packet 2 10), Enq (packet 3 10),
                    Enq (packet 4 10), Enq (packet 5 10), Deq, Deq, Deq, Deq]
                default_queue) = Some (packet 4 10)
   \<and> fst (Dequeue (exec [Enq (packet 1 10), Enq (packet 2 10), Enq (packet 3 10),
                    Enq (packet 4 10), Enq (packet 5 10), Deq, Deq, Deq, Deq]
                default_queue)) = None
   \<and> m_held (snd (Dequeue (exec [Enq (packet 1 10), Enq (packet 2 10), Enq (packet 3 10),
                    Enq (packet 4 10), Enq (packet 5 10), Deq, Deq, Deq, Deq]
                default_queue))) = Some (packet 4 10)"
  by (simp add: queue_defs start_defs)

section \<open>The byte counter\<close>

lemma counted_Enqueue: "counted q \<Longrightarrow> counted (snd (Enqueue i q))"
  by (simp add: counted_def Enqueue_def DropBeforeEnqueue_def stored_bytes_def)

lemma counted_Dequeue: "counted q \<Longrightarrow> counted (snd (Dequeue q))"
  by (cases "m_packets q")
     (auto simp add: counted_def Dequeue_def ReleaseHeld_def HoldFront_def ReleaseAnyway_def
        PopFront_def Let_def stored_bytes_def neq_Nil_conv split: option.splits)

lemma counted_exec: "counted q \<Longrightarrow> counted (exec cs q)"
proof (induction cs arbitrary: q)
  case Nil
  then show ?case by simp
next
  case (Cons c cs)
  then show ?case
    by (cases c) (simp_all add: counted_Enqueue counted_Dequeue Remove_nothing)
qed

text \<open>
  C4, as the code has it. After any run of \<open>Enqueue\<close>, \<open>Dequeue\<close> and \<open>Remove\<close> calls on
  a new queue whose in-sequence length is not zero, the byte counter equals the bytes
  held (the sizes of the items in the store plus the size of the held item, if any)
  modulo \<open>2 ^ 32\<close>: the counter is a \<open>uint32_t\<close>.
\<close>

theorem byte_counter_modulo:
  assumes "sl \<noteq> 0"
  shows "unat (m_bytesInQueue (exec cs (ReorderQueue_new ms rd sl)))
         = stored_bytes (exec cs (ReorderQueue_new ms rd sl)) mod 2 ^ 32"
proof -
  from assms have "counted (ReorderQueue_new ms rd sl)"
    by (simp add: counted_def ReorderQueue_new_def stored_bytes_def)
  then have "counted (exec cs (ReorderQueue_new ms rd sl))"
    by (rule counted_exec)
  then have "m_bytesInQueue (exec cs (ReorderQueue_new ms rd sl))
             = of_nat (stored_bytes (exec cs (ReorderQueue_new ms rd sl)))"
    by (simp add: counted_def)
  then show ?thesis
    by (simp add: unat_of_nat)
qed

theorem byte_counter_modulo_witness:
  "(3 :: 32 word) \<noteq> 0
   \<and> unat (m_bytesInQueue
        (exec [Enq (packet 1 10), Enq (packet 2 20), Enq (packet 3 30), Enq (packet 4 40),
               Enq (packet 5 50), Enq (packet 6 60), Deq, Rem, Deq, Deq, Deq]
           (ReorderQueue_new \<lparr>GetUnit = PACKETS, GetValue = 100\<rparr> 5 3)))
     = stored_bytes
        (exec [Enq (packet 1 10), Enq (packet 2 20), Enq (packet 3 30), Enq (packet 4 40),
               Enq (packet 5 50), Enq (packet 6 60), Deq, Rem, Deq, Deq, Deq]
           (ReorderQueue_new \<lparr>GetUnit = PACKETS, GetValue = 100\<rparr> 5 3)) mod 2 ^ 32
   \<and> stored_bytes
        (exec [Enq (packet 1 10), Enq (packet 2 20), Enq (packet 3 30), Enq (packet 4 40),
               Enq (packet 5 50), Enq (packet 6 60), Deq, Rem, Deq, Deq, Deq]
           (ReorderQueue_new \<lparr>GetUnit = PACKETS, GetValue = 100\<rparr> 5 3)) = 100"
proof -
  have config: "(3 :: 32 word) \<noteq> 0"
    by simp
  have held: "stored_bytes
        (exec [Enq (packet 1 10), Enq (packet 2 20), Enq (packet 3 30), Enq (packet 4 40),
               Enq (packet 5 50), Enq (packet 6 60), Deq, Rem, Deq, Deq, Deq]
           (ReorderQueue_new \<lparr>GetUnit = PACKETS, GetValue = 100\<rparr> 5 3)) = 100"
    by (simp add: queue_defs start_defs stored_bytes_def)
  from byte_counter_modulo [OF config, of
      "[Enq (packet 1 10), Enq (packet 2 20), Enq (packet 3 30), Enq (packet 4 40),
        Enq (packet 5 50), Enq (packet 6 60), Deq, Rem, Deq, Deq, Deq]"
      "\<lparr>GetUnit = PACKETS, GetValue = 100\<rparr>" 5]
    config held
  show ?thesis
    by blast
qed

text \<open>
  C4 as stated fails where the bytes held pass \<open>2 ^ 32\<close>: the default queue accepts two
  items of 2147483648 bytes each, after which the byte counter is 0 and the bytes held
  are 4294967296.
\<close>

theorem byte_counter_counterexample:
  "unat (m_bytesInQueue
           (exec [Enq (packet 1 2147483648), Enq (packet 2 2147483648)] default_queue))
   \<noteq> stored_bytes
           (exec [Enq (packet 1 2147483648), Enq (packet 2 2147483648)] default_queue)"
  by (simp add: queue_defs start_defs stored_bytes_def)

section \<open>The scheduler's counters along a run\<close>


lemma Enqueue_scheduler [simp]:
  "m_held (snd (Enqueue i q)) = m_held q"
  "m_holdCount (snd (Enqueue i q)) = m_holdCount q"
  "m_inSequenceCount (snd (Enqueue i q)) = m_inSequenceCount q"
  "m_reorderDepth (snd (Enqueue i q)) = m_reorderDepth q"
  "m_inSequenceLength (snd (Enqueue i q)) = m_inSequenceLength q"
  by (simp_all add: Enqueue_def DropBeforeEnqueue_def)

lemma Remove_scheduler [simp]:
  "m_held (snd (Remove q)) = m_held q"
  "m_holdCount (snd (Remove q)) = m_holdCount q"
  "m_inSequenceCount (snd (Remove q)) = m_inSequenceCount q"
  "m_reorderDepth (snd (Remove q)) = m_reorderDepth q"
  "m_inSequenceLength (snd (Remove q)) = m_inSequenceLength q"
  by (simp_all add: Remove_def)

lemma Dequeue_config [simp]:
  "m_reorderDepth (snd (Dequeue q)) = m_reorderDepth q"
  "m_inSequenceLength (snd (Dequeue q)) = m_inSequenceLength q"
  by (simp_all add: Dequeue_def ReleaseHeld_def HoldFront_def ReleaseAnyway_def
        PopFront_def Let_def)

lemma step_config [simp]:
  "m_reorderDepth (snd (step c q)) = m_reorderDepth q"
  "m_inSequenceLength (snd (step c q)) = m_inSequenceLength q"
  by (cases c; simp)+

lemma exec_config [simp]:
  "m_reorderDepth (exec cs q) = m_reorderDepth q"
  "m_inSequenceLength (exec cs q) = m_inSequenceLength q"
  by (induction cs arbitrary: q) simp_all

lemma no_hold_no_count_Dequeue:
  "no_hold_no_count q \<Longrightarrow> no_hold_no_count (snd (Dequeue q))"
  by (simp add: no_hold_no_count_def Dequeue_def ReleaseHeld_def HoldFront_def
        ReleaseAnyway_def PopFront_def Let_def)

lemma no_hold_no_count_step:
  "no_hold_no_count q \<Longrightarrow> no_hold_no_count (snd (step c q))"
  by (cases c) (simp_all add: no_hold_no_count_Dequeue, simp_all add: no_hold_no_count_def)

lemma no_hold_no_count_exec:
  "no_hold_no_count q \<Longrightarrow> no_hold_no_count (exec cs q)"
  by (induction cs arbitrary: q) (simp_all add: no_hold_no_count_step)










text \<open>
  C10. In the state after any run of operations on a new queue, an empty held slot comes
  with \<open>m_holdCount = 0\<close>. When \<open>Dequeue\<close> in that state reaches line 180 (store not
  empty, no release of the held item, hold trigger reached), the state after line 184 has
  the front of the store in the held slot and both counters at zero; the call goes on
  from that state.
\<close>

theorem hold_counters:
  assumes "q = exec cs (ReorderQueue_new ms rd sl)"
  shows "(m_held q = None \<longrightarrow> m_holdCount q = 0)
         \<and> (m_packets q \<noteq> []
              \<and> \<not> (m_holdCount q = m_reorderDepth q \<and> m_held q \<noteq> None)
              \<and> m_inSequenceCount q = m_inSequenceLength q
            \<longrightarrow> m_held (HoldFront q) = Some (hd (m_packets q))
                \<and> m_holdCount (HoldFront q) = 0
                \<and> m_inSequenceCount (HoldFront q) = 0
                \<and> Dequeue q = (if m_packets (HoldFront q) = []
                                then ReleaseAnyway (HoldFront q)
                                else PopFront (HoldFront q)))"
proof -
  have "no_hold_no_count (ReorderQueue_new ms rd sl)"
    by (simp add: no_hold_no_count_def ReorderQueue_new_def)
  then have "no_hold_no_count q"
    unfolding assms by (rule no_hold_no_count_exec)
  then have "m_held q = None \<longrightarrow> m_holdCount q = 0"
    by (simp add: no_hold_no_count_def)
  moreover have "m_held (HoldFront q) = Some (hd (m_packets q))"
    "m_holdCount (HoldFront q) = 0" "m_inSequenceCount (HoldFront q) = 0"
    by (simp_all add: HoldFront_def)
  ultimately show ?thesis
    by (auto simp add: Dequeue_def Let_def)
qed

theorem hold_counters_witness:
  "m_held (exec [Enq (packet 1 10), Enq (packet 2 10), Enq (packet 3 10),
                 Enq (packet 4 10), Enq (packet 5 10), Deq, Deq, Deq] default_queue) = None
   \<and> m_holdCount (exec [Enq (packet 1 10), Enq (packet 2 10), Enq (packet 3 10),
                 Enq (packet 4 10), Enq (packet 5 10), Deq, Deq, Deq] default_queue) = 0
   \<and> m_inSequenceCount (exec [Enq (packet 1 10), Enq (packet 2 10), Enq (packet 3 10),
                 Enq (packet 4 10), Enq (packet 5 10), Deq, Deq, Deq] default_queue) = 3
   \<and> m_held (HoldFront (exec [Enq (packet 1 10), Enq (packet 2 10), Enq (packet 3 10),
                 Enq (packet 4 10), Enq (packet 5 10), Deq, Deq, Deq] default_queue))
       = Some (packet 4 10)
   \<and> m_holdCount (HoldFront (exec [Enq (packet 1 10), Enq (packet 2 10),
                 Enq (packet 3 10), Enq (packet 4 10), Enq (packet 5 10), Deq, Deq, Deq]
                 default_queue)) = 0
   \<and> m_inSequenceCount (HoldFront (exec [Enq (packet 1 10), Enq (packet 2 10),
                 Enq (packet 3 10), Enq (packet 4 10), Enq (packet 5 10), Deq, Deq, Deq]
                 default_queue)) = 0"
proof -
  let ?cs = "[Enq (packet 1 10), Enq (packet 2 10), Enq (packet 3 10),
              Enq (packet 4 10), Enq (packet 5 10), Deq, Deq, Deq]"
  let ?q = "exec ?cs default_queue"
  have start: "?q = exec ?cs (ReorderQueue_new \<lparr>GetUnit = PACKETS, GetValue = 100\<rparr> 5 3)"
    by (simp only: default_queue_def)
  have state: "?q = \<lparr>m_maxSize = \<lparr>GetUnit = PACKETS, GetValue = 100\<rparr>,
      m_packets = [packet 4 10, packet 5 10],
      m_bytesInQueue = 20, m_reorderDepth = 5, m_inSequenceLength = 3,
      m_holdCount = 0, m_inSequenceCount = 3, m_held = None, m_dropped = []\<rparr>"
    by (simp add: queue_defs start_defs)
  have reached: "m_held ?q = None" "m_packets ?q \<noteq> []"
    "\<not> (m_holdCount ?q = m_reorderDepth ?q \<and> m_held ?q \<noteq> None)"
    "m_inSequenceCount ?q = m_inSequenceLength ?q" "m_inSequenceCount ?q = 3"
    "hd (m_packets ?q) = packet 4 10"
    unfolding state by simp_all
  from hold_counters [OF start] reached show ?thesis
    by simp
qed




end
